theory Spec2Isabelle
  imports Complex_Main "HOL-Library.Code_Target_Nat" "HOL-Library.Sublist"
begin

section \<open>JavaScript strings\<close>

text \<open>
  A JavaScript string is a sequence of UTF-16 code units; \<open>length\<close>, \<open>slice\<close>,
  \<open>trim\<close> and regular expressions without the \<open>u\<close> flag work on code units.
  Every character the text heuristics of \<open>index.js\<close> name is in the Basic Multilingual
  Plane, so there a code unit is a code point.
\<close>

type_synonym jsstring = "nat list"

definition js :: "string \<Rightarrow> jsstring" where
  "js s = map of_char s"

text \<open>The Unicode tables behind \<open>toLowerCase\<close>, \<open>toUpperCase\<close>, the \<open>i\<close> flag
  (simple case folding, \<open>canonicalize\<close>) and the property escapes \<open>\p{L}\<close>,
  \<open>\p{M}\<close>, \<open>\p{Extended_Pictographic}\<close> belong to the JavaScript engine, not to
  the repository, and so does the rounding of a real number to the nearest double
  (\<open>toDouble\<close>): they are parameters of the model. The tables take code points.\<close>

record engine =
  toLowerCase :: "jsstring \<Rightarrow> jsstring"
  toUpperCase :: "jsstring \<Rightarrow> jsstring"
  canonicalize :: "nat \<Rightarrow> nat"
  isLetter :: "nat \<Rightarrow> bool"
  isMark :: "nat \<Rightarrow> bool"
  isExtPict :: "nat \<Rightarrow> bool"
  toDouble :: "rat \<Rightarrow> rat"

text \<open>\<open>\s\<close> and \<open>trim()\<close>: white space and line terminators of ECMAScript.\<close>

definition isSpace :: "nat \<Rightarrow> bool" where
  "isSpace c \<longleftrightarrow>
     c = 9 \<or> c = 10 \<or> c = 11 \<or> c = 12 \<or> c = 13 \<or> c = 32 \<or> c = 160 \<or> c = 5760 \<or>
     (8192 \<le> c \<and> c \<le> 8202) \<or> c = 8232 \<or> c = 8233 \<or> c = 8239 \<or> c = 8287 \<or>
     c = 12288 \<or> c = 65279"

definition trim :: "jsstring \<Rightarrow> jsstring" where
  "trim s = rev (dropWhile isSpace (rev (dropWhile isSpace s)))"

text \<open>\<open>s.replace(/\s+/g, ' ')\<close>: every maximal run of white space becomes one space.\<close>

fun collapseFrom :: "bool \<Rightarrow> jsstring \<Rightarrow> jsstring" where
  "collapseFrom inRun [] = []"
| "collapseFrom inRun (c # cs) =
     (if isSpace c then (if inRun then collapseFrom True cs else 32 # collapseFrom True cs)
      else c # collapseFrom False cs)"

definition collapseSpaces :: "jsstring \<Rightarrow> jsstring" where
  "collapseSpaces s = collapseFrom False s"

text \<open>\<open>s.split(' ')\<close>, \<open>s.split(/[.\n]/)\<close>: the pieces between separators of one
  code unit, empty pieces included.\<close>

fun splitWhere :: "(nat \<Rightarrow> bool) \<Rightarrow> jsstring \<Rightarrow> jsstring list" where
  "splitWhere sep [] = [[]]"
| "splitWhere sep (c # cs) =
     (case splitWhere sep cs of
        [] \<Rightarrow> [[c]]
      | p # ps \<Rightarrow> if sep c then [] # p # ps else (c # p) # ps)"

definition nonEmpty :: "jsstring \<Rightarrow> bool" where
  "nonEmpty s \<longleftrightarrow> s \<noteq> []"

text \<open>\<open>Array.from(new Set(xs))\<close>: first occurrences, in insertion order.\<close>

fun uniq :: "'a list \<Rightarrow> 'a list" where
  "uniq [] = []"
| "uniq (x # xs) = x # uniq (filter (\<lambda>y. y \<noteq> x) xs)"

section \<open>Normalisation and Jaccard similarity (index.js, lines 197--211)\<close>

text \<open>The class \<open>[\<dots>"!?.,;:()\-\<dots>[\]{}\<dots>]\<close> of \<open>normalize\<close>: low and right double
  quotation marks (U+201E, U+201D), the ASCII quote, \<open>! ? . , ; : ( ) -\<close>, en and em dash
  (U+2013, U+2014), brackets, braces and the ellipsis (U+2026).\<close>

definition normPunct :: "nat \<Rightarrow> bool" where
  "normPunct c \<longleftrightarrow> c \<in> set [8222, 8221, 34, 33, 63, 46, 44, 59, 58, 40, 41, 45,
                             8211, 8212, 91, 93, 123, 125, 8230]"

definition normalize :: "engine \<Rightarrow> jsstring \<Rightarrow> jsstring" where
  "normalize U text =
     trim (collapseSpaces (filter (\<lambda>c. \<not> normPunct c) (toLowerCase U text)))"

text \<open>\<open>new Set(normalize(a).split(' ').filter(Boolean))\<close>.\<close>

definition tokens :: "engine \<Rightarrow> jsstring \<Rightarrow> jsstring list" where
  "tokens U a = uniq (filter nonEmpty (splitWhere (\<lambda>c. c = 32) (normalize U a)))"

text \<open>The sizes are integers; their quotient is rounded to a double.\<close>

definition jaccard :: "engine \<Rightarrow> jsstring \<Rightarrow> jsstring \<Rightarrow> rat" where
  "jaccard U a b =
     (let A = tokens U a; B = tokens U b in
      if A = [] \<and> B = [] then 1
      else let inter = length (filter (\<lambda>w. w \<in> set B) A) in
        toDouble U (of_nat inter / of_nat (length A + length B - inter)))"

section \<open>Novelty selection (index.js, lines 212--221)\<close>

text \<open>\<open>Math.max(0, ...history.map(h => jaccard(c, h)))\<close>.\<close>

definition maxSim :: "engine \<Rightarrow> jsstring \<Rightarrow> jsstring list \<Rightarrow> rat" where
  "maxSim U c history = fold max (map (\<lambda>h. jaccard U c h) history) 0"

text \<open>The loop over the candidates, with its two variables \<open>best\<close> and
  \<open>bestScore\<close>.\<close>

fun novelLoop :: "engine \<Rightarrow> jsstring list \<Rightarrow> jsstring list \<Rightarrow> jsstring \<times> rat \<Rightarrow> jsstring \<times> rat" where
  "novelLoop U [] history (best, bestScore) = (best, bestScore)"
| "novelLoop U (c # cs) history (best, bestScore) =
     (let m = maxSim U c history in
      if m < bestScore then novelLoop U cs history (c, m)
      else novelLoop U cs history (best, bestScore))"

text \<open>\<open>cands[0] || ''\<close>: the first candidate when it exists and is not the empty
  string, the empty string otherwise.\<close>

definition firstOrEmpty :: "jsstring list \<Rightarrow> jsstring" where
  "firstOrEmpty cands = (case cands of [] \<Rightarrow> [] | c # _ \<Rightarrow> if c \<noteq> [] then c else [])"

text \<open>An absent history (\<open>undefined\<close>, \<open>null\<close>) is \<open>None\<close>.\<close>

definition chooseMostNovel :: "engine \<Rightarrow> jsstring list \<Rightarrow> jsstring list option \<Rightarrow> jsstring" where
  "chooseMostNovel U cands history =
     (case history of
        None \<Rightarrow> firstOrEmpty cands
      | Some hs \<Rightarrow>
          if hs = [] then firstOrEmpty cands
          else let best = fst (novelLoop U cands hs ([], 1)) in
            if best \<noteq> [] then best else firstOrEmpty cands)"

section \<open>Code points\<close>

text \<open>A regular expression with the \<open>u\<close> flag reads the string as code points: a high
  surrogate followed by a low surrogate is one code point, any other code unit is one by
  itself. The replacement is written back as UTF-16.\<close>

fun decode :: "jsstring \<Rightarrow> nat list" where
  "decode (h # l # cs) =
     (if 0xD800 \<le> h \<and> h \<le> 0xDBFF \<and> 0xDC00 \<le> l \<and> l \<le> 0xDFFF
      then (0x10000 + (h - 0xD800) * 0x400 + (l - 0xDC00)) # decode cs
      else h # decode (l # cs))"
| "decode [c] = [c]"
| "decode [] = []"

definition encodePoint :: "nat \<Rightarrow> jsstring" where
  "encodePoint c =
     (if 0x10000 \<le> c then [0xD800 + (c - 0x10000) div 0x400, 0xDC00 + (c - 0x10000) mod 0x400]
      else [c])"

definition encode :: "nat list \<Rightarrow> jsstring" where
  "encode cps = concat (map encodePoint cps)"

definition charAt :: "nat list \<Rightarrow> nat \<Rightarrow> nat option" where
  "charAt s i = (if i < length s then Some (s ! i) else None)"

text \<open>\<open>\b\<close>: a position is a word boundary when exactly one of its two neighbours is a
  word character. The word characters are \<open>[A-Za-z0-9_]\<close>; with the flags \<open>i\<close> and
  \<open>u\<close> together, also every character that case folding sends there.\<close>

definition basicWordChar :: "nat \<Rightarrow> bool" where
  "basicWordChar c \<longleftrightarrow>
     (97 \<le> c \<and> c \<le> 122) \<or> (65 \<le> c \<and> c \<le> 90) \<or> (48 \<le> c \<and> c \<le> 57) \<or> c = 95"

definition isWordChar :: "engine \<Rightarrow> nat \<Rightarrow> bool" where
  "isWordChar U c \<longleftrightarrow> basicWordChar c \<or> basicWordChar (canonicalize U c)"

definition wordBoundary :: "engine \<Rightarrow> nat option \<Rightarrow> nat option \<Rightarrow> bool" where
  "wordBoundary U prev next \<longleftrightarrow>
     (case prev of None \<Rightarrow> False | Some c \<Rightarrow> isWordChar U c) \<noteq>
     (case next of None \<Rightarrow> False | Some c \<Rightarrow> isWordChar U c)"

text \<open>A literal word of a pattern with the \<open>i\<close> flag matches at the start of \<open>s\<close> when
  the two agree after case folding, code point by code point.\<close>

definition matchesCI :: "engine \<Rightarrow> nat list \<Rightarrow> nat list \<Rightarrow> bool" where
  "matchesCI U w s \<longleftrightarrow>
     length w \<le> length s \<and> map (canonicalize U) (take (length w) s) = map (canonicalize U) w"

section \<open>Candidate parsing (index.js, lines 252--264)\<close>

text \<open>\<open>text.split(/\r?\n/)\<close>: a line feed, with the carriage return before it if there
  is one, separates two lines.\<close>

fun splitLines :: "jsstring \<Rightarrow> jsstring list" where
  "splitLines [] = [[]]"
| "splitLines [c] = (if c = 10 then [[], []] else [[c]])"
| "splitLines (c # d # cs) =
     (if c = 13 \<and> d = 10 then [] # splitLines cs
      else if c = 10 then [] # splitLines (d # cs)
      else (case splitLines (d # cs) of
              [] \<Rightarrow> [[c]]
            | p # ps \<Rightarrow> (c # p) # ps))"

text \<open>\<open>l.replace(/^[-*\d.)]+\s*/, '')\<close>: a leading run of dashes, asterisks, digits,
  full stops and closing parentheses goes, with the white space after it.\<close>

definition isMarker :: "nat \<Rightarrow> bool" where
  "isMarker c \<longleftrightarrow> c = 45 \<or> c = 42 \<or> (48 \<le> c \<and> c \<le> 57) \<or> c = 46 \<or> c = 41"

definition stripMarker :: "jsstring \<Rightarrow> jsstring" where
  "stripMarker l =
     (case l of
        [] \<Rightarrow> []
      | c # cs \<Rightarrow> if isMarker c then dropWhile isSpace (dropWhile isMarker cs) else l)"

definition wordCount :: "engine \<Rightarrow> jsstring \<Rightarrow> nat" where
  "wordCount U s = length (filter nonEmpty (splitWhere (\<lambda>c. c = 32) (normalize U s)))"

definition parseList :: "engine \<Rightarrow> jsstring \<Rightarrow> jsstring list" where
  "parseList U text =
     (let lines = filter nonEmpty (map trim (splitLines text));
          items = filter nonEmpty (map stripMarker lines);
          uniqs = filter (\<lambda>s. 5 \<le> wordCount U s \<and> wordCount U s \<le> 16) (uniq items)
      in take 20 uniqs)"

section \<open>Greeting sanitizer (index.js, lines 266--279)\<close>

text \<open>\<open>FORBIDDEN_HELLOS = ['cze\<dots>', 'hej', 'witaj', 'siema', 'halo']\<close>; the first word ends
  in s-acute (U+015B) and c-acute (U+0107).\<close>

definition FORBIDDEN_HELLOS :: "nat list list" where
  "FORBIDDEN_HELLOS =
     [js ''cze'' @ [0x15B, 0x107], js ''hej'', js ''witaj'', js ''siema'', js ''halo'']"

text \<open>The class \<open>[\p{L}\p{M}\s,!.?\<dots>-]\<close> after the greeting word: letters, marks, white
  space, comma, exclamation mark, full stop, question mark, en dash, em dash, hyphen.\<close>

definition helloTail :: "engine \<Rightarrow> nat \<Rightarrow> bool" where
  "helloTail U c \<longleftrightarrow>
     isLetter U c \<or> isMark U c \<or> isSpace c \<or> c \<in> set [44, 33, 46, 63, 8211, 8212, 45]"

text \<open>An alternative of \<open>(?:w1|w2|\<dots>)\b\<close> matches when the word is there and a word
  boundary follows it; the alternatives are tried in order.\<close>

definition wordThenBoundary :: "engine \<Rightarrow> nat list \<Rightarrow> nat list \<Rightarrow> bool" where
  "wordThenBoundary U s w \<longleftrightarrow>
     matchesCI U w s \<and> wordBoundary U (charAt s (length w - 1)) (charAt s (length w))"

text \<open>\<open>s.replace(helloRe, '')\<close> with
  \<open>helloRe = /^\s*(?:hellos)\b[\p{L}\p{M}\s,!.?\<dots>-]*/iu\<close>: the pattern is anchored at
  the start, so the match, if there is one, is a prefix, and what is left is the rest.\<close>

definition stripHello :: "engine \<Rightarrow> nat list \<Rightarrow> nat list" where
  "stripHello U s =
     (let s1 = dropWhile isSpace s in
      case find (wordThenBoundary U s1) FORBIDDEN_HELLOS of
        None \<Rightarrow> s
      | Some w \<Rightarrow> dropWhile (helloTail U) (drop (length w) s1))"

text \<open>\<open>forms = [name, name+'u', name+'o', name+'e', name+'a', name+'ku']\<close>. The forms
  are escaped before they enter the pattern, so each stands for itself.\<close>

definition nameForms :: "nat list \<Rightarrow> nat list list" where
  "nameForms name =
     [name, name @ js ''u'', name @ js ''o'', name @ js ''e'', name @ js ''a'', name @ js ''ku'']"

definition nameTail :: "nat \<Rightarrow> bool" where
  "nameTail c \<longleftrightarrow> isSpace c \<or> c \<in> set [44, 33, 46, 63]"

text \<open>One attempt of \<open>/\b(?:forms)\b[\s,!.?]*/giu\<close> at the start of \<open>s\<close>, the code point
  before it being \<open>prev\<close>: the length of the match.\<close>

definition nameMatch :: "engine \<Rightarrow> nat list list \<Rightarrow> nat option \<Rightarrow> nat list \<Rightarrow> nat option" where
  "nameMatch U forms prev s =
     (if \<not> wordBoundary U prev (charAt s 0) then None
      else case find (wordThenBoundary U s) forms of
             None \<Rightarrow> None
           | Some f \<Rightarrow> Some (length f + length (takeWhile nameTail (drop (length f) s))))"

text \<open>\<open>s.replace(nameRe, '')\<close>, from left to right: \<open>skip\<close> counts the code points of
  the current match still to be dropped; outside a match the pattern is tried at every
  position, and a code point where it fails is kept.\<close>

fun stripNames :: "engine \<Rightarrow> nat list list \<Rightarrow> nat option \<Rightarrow> nat \<Rightarrow> nat list \<Rightarrow> nat list" where
  "stripNames U forms prev skip [] = []"
| "stripNames U forms prev skip (c # cs) =
     (if 0 < skip then stripNames U forms (Some c) (skip - 1) cs
      else case nameMatch U forms prev (c # cs) of
             None \<Rightarrow> c # stripNames U forms (Some c) 0 cs
           | Some k \<Rightarrow>
               if 0 < k then stripNames U forms (Some c) (k - 1) cs
               else c # stripNames U forms (Some c) 0 cs)"

text \<open>The class \<open>[,\<dots>\-|:;!.\s]\<close> of the last replacement: comma, en dash, em dash,
  hyphen, bar, colon, semicolon, exclamation mark, full stop, white space.\<close>

definition leadClass :: "nat \<Rightarrow> bool" where
  "leadClass c \<longleftrightarrow> c \<in> set [44, 8211, 8212, 45, 124, 58, 59, 33, 46] \<or> isSpace c"

definition sanitizeNoName :: "engine \<Rightarrow> jsstring \<Rightarrow> jsstring \<Rightarrow> jsstring" where
  "sanitizeNoName U name raw =
     (let s = trim raw;
          s = trim (encode (stripHello U (decode s)));
          s = (if name \<noteq> []
               then trim (encode (stripNames U (nameForms (decode name)) None 0 (decode s)))
               else s);
          s = trim (encode (dropWhile leadClass (decode s)))
      in s)"

section \<open>Race with a deadline (index.js, lines 43--48 and 283--321)\<close>

text \<open>A thrown value is an \<open>Error\<close> with a name and a message, or the
  \<open>AggregateError\<close> of \<open>Promise.any\<close>, which carries the errors of all the promises.\<close>

datatype error = Error string string | AggregateError "error list"

fun errorName :: "error \<Rightarrow> string" where
  "errorName (Error n m) = n"
| "errorName (AggregateError es) = ''AggregateError''"

fun errorMessage :: "error \<Rightarrow> string" where
  "errorMessage (Error n m) = m"
| "errorMessage (AggregateError es) = ''All promises were rejected''"

text \<open>\<open>String(err?.message || err)\<close>: the message, or for an empty message the error
  converted to a string, which is then its name.\<close>

definition errorString :: "error \<Rightarrow> string" where
  "errorString err = (if errorMessage err \<noteq> [] then errorMessage err else errorName err)"

text \<open>Time is counted in instants from the start of the request: instant 0 is the turn
  of the event loop in which the request handler runs, microtasks included; a timer of
  \<open>ms\<close> milliseconds fires at instant \<open>ms\<close>, and Node.js sets a delay below 1 or above
  2147483647 to 1. A promise is fulfilled or rejected at some instant, or never settles.\<close>

datatype 'a promise = Fulfilled nat 'a | Rejected nat error | Pending

definition timerInstant :: "nat \<Rightarrow> nat" where
  "timerInstant ms = (if ms < 1 \<or> 2147483647 < ms then 1 else ms)"

definition DEADLINE_EXCEEDED :: error where
  "DEADLINE_EXCEEDED = Error ''Error'' ''DEADLINE_EXCEEDED''"

text \<open>\<open>withDeadline\<close>: what the promise does before the timer fires is passed on; from
  then on the returned promise is rejected, and what the promise does later is
  ignored. The result is the instant and the outcome.\<close>

definition withDeadline :: "'a promise \<Rightarrow> nat \<Rightarrow> nat \<times> (error + 'a)" where
  "withDeadline promise ms =
     (let to = timerInstant ms in
      case promise of
        Fulfilled t v \<Rightarrow> if t < to then (t, Inr v) else (to, Inl DEADLINE_EXCEEDED)
      | Rejected t e \<Rightarrow> if t < to then (t, Inl e) else (to, Inl DEADLINE_EXCEEDED)
      | Pending \<Rightarrow> (to, Inl DEADLINE_EXCEEDED))"

text \<open>\<open>Promise.any\<close>: fulfilled with the first fulfilment (the earlier in the list
  among those of one instant); rejected with an \<open>AggregateError\<close> once every promise
  is rejected, which for no promise at all is at once; pending otherwise.\<close>

fun firstFulfilled :: "'a promise list \<Rightarrow> (nat \<times> 'a) option" where
  "firstFulfilled [] = None"
| "firstFulfilled (Fulfilled t v # ps) =
     (case firstFulfilled ps of
        None \<Rightarrow> Some (t, v)
      | Some (t', v') \<Rightarrow> if t' < t then Some (t', v') else Some (t, v))"
| "firstFulfilled (p # ps) = firstFulfilled ps"

fun rejections :: "'a promise list \<Rightarrow> (nat \<times> error) list option" where
  "rejections [] = Some []"
| "rejections (Rejected t e # ps) =
     (case rejections ps of None \<Rightarrow> None | Some rs \<Rightarrow> Some ((t, e) # rs))"
| "rejections (p # ps) = None"

definition promiseAny :: "'a promise list \<Rightarrow> 'a promise" where
  "promiseAny ps =
     (case firstFulfilled ps of
        Some (t, v) \<Rightarrow> Fulfilled t v
      | None \<Rightarrow>
          (case rejections ps of
             Some rs \<Rightarrow> Rejected (fold max (map fst rs) 0) (AggregateError (map snd rs))
           | None \<Rightarrow> Pending))"

text \<open>What a provider does with a request is an input of the model. Groq is called
  with \<open>fetch\<close>: an HTTP status and the content of the first choice, at some instant,
  or an exception of \<open>fetch\<close> or of the JSON parser, or nothing at all. OpenAI is
  called through its client: the content, an exception, or nothing.\<close>

datatype groq_reply = GroqHttp nat nat jsstring | GroqThrows nat error | GroqSilent

datatype openai_reply = OpenaiContent nat jsstring | OpenaiThrows nat error | OpenaiSilent

text \<open>The result of a racer, \<open>{ provider, text, latency_ms }\<close>.\<close>

record winner =
  provider :: string
  wtext :: jsstring
  latency_ms :: nat

function showNat :: "nat \<Rightarrow> string" where
  "showNat n =
     (if n < 10 then [char_of (48 + n)] else showNat (n div 10) @ [char_of (48 + n mod 10)])"
  by pat_completeness auto
termination
  by (relation "measure (\<lambda>n. n)") auto

text \<open>\<open>groqChat\<close>: a status outside 200..299 is thrown as \<open>GROQ_HTTP_status\<close>; an
  empty content is returned as the empty text.\<close>

definition groqChat :: "groq_reply \<Rightarrow> winner promise" where
  "groqChat reply =
     (case reply of
        GroqHttp t status content \<Rightarrow>
          if \<not> (200 \<le> status \<and> status \<le> 299)
          then Rejected t (Error ''Error'' (''GROQ_HTTP_'' @ showNat status))
          else Fulfilled t \<lparr> provider = ''groq'', wtext = trim content, latency_ms = t \<rparr>
      | GroqThrows t e \<Rightarrow> Rejected t e
      | GroqSilent \<Rightarrow> Pending)"

text \<open>The OpenAI racer: an empty content is thrown as \<open>OPENAI_EMPTY\<close>.\<close>

definition openaiChat :: "openai_reply \<Rightarrow> winner promise" where
  "openaiChat reply =
     (case reply of
        OpenaiContent t content \<Rightarrow>
          (let txt = trim content in
           if txt = [] then Rejected t (Error ''Error'' ''OPENAI_EMPTY'')
           else Fulfilled t \<lparr> provider = ''openai'', wtext = txt, latency_ms = t \<rparr>)
      | OpenaiThrows t e \<Rightarrow> Rejected t e
      | OpenaiSilent \<Rightarrow> Pending)"

text \<open>The configuration read from the environment at start-up, and what the outside
  world does during one request: the two replies and the value of \<open>Math.random\<close>
  (as the index it is turned into).\<close>

record config =
  GROQ_API_KEY :: bool
  openai :: bool
  DEADLINE_MS :: nat
  MOCK_TEXT :: bool

record world =
  groqReply :: groq_reply
  openaiReply :: openai_reply
  random :: nat

text \<open>\<open>racers\<close>: Groq first when its key is set, then OpenAI when its client exists.
  The prompt only reaches the providers, whose replies are inputs here.\<close>

definition racers :: "config \<Rightarrow> world \<Rightarrow> winner promise list" where
  "racers cfg w =
     (if GROQ_API_KEY cfg then [groqChat (groqReply w)] else []) @
     (if openai cfg then [openaiChat (openaiReply w)] else [])"

definition race :: "config \<Rightarrow> world \<Rightarrow> nat \<times> (error + winner)" where
  "race cfg w = withDeadline (promiseAny (racers cfg w)) (DEADLINE_MS cfg)"

section \<open>Greeting generation (index.js, lines 281--351)\<close>

text \<open>\<open>Number(age)\<close> is a number or \<open>NaN\<close>.\<close>

datatype jsnumber = NaN | PosInfinity | NegInfinity | Num rat

text \<open>The profile key is the template \<open>`${(name || '').toLowerCase()}|${Number(age)||'X'}`\<close>:
  the name in lower case, a bar, and the number or, for \<open>NaN\<close> and 0, the letter X.
  The text of a number has no bar in it, so the key is the pair of its two parts;
  \<open>None\<close> is the letter X.\<close>

type_synonym profileKey = "jsstring \<times> jsnumber option"

definition profileKey :: "engine \<Rightarrow> jsstring \<Rightarrow> jsnumber \<Rightarrow> profileKey" where
  "profileKey U name age =
     (toLowerCase U name, if age = NaN \<or> age = Num 0 then None else Some age)"

text \<open>\<open>const recentGreetings = new Map()\<close>.\<close>

type_synonym recentGreetings = "profileKey \<rightharpoonup> jsstring list"

text \<open>The candidates of \<open>generateGreetingV2\<close>: the parsed list, or, when it is empty and
  the text is not, the pieces of \<open>raw.split(/[.\n]/)\<close>, trimmed, the empty ones dropped.\<close>

definition candidates :: "engine \<Rightarrow> jsstring \<Rightarrow> jsstring list" where
  "candidates U raw =
     (let cands = parseList U raw in
      if cands = [] \<and> raw \<noteq> []
      then filter nonEmpty (map trim (splitWhere (\<lambda>c. c = 46 \<or> c = 10) raw))
      else cands)"

definition historyOf :: "recentGreetings \<Rightarrow> profileKey \<Rightarrow> jsstring list" where
  "historyOf recent key = (case recent key of None \<Rightarrow> [] | Some h \<Rightarrow> h)"

text \<open>\<open>generateGreetingV2\<close> returns the instant and the outcome of its promise, and the
  map as it leaves it. Everything after the race runs without interruption.\<close>

definition generateGreetingV2 ::
  "engine \<Rightarrow> config \<Rightarrow> world \<Rightarrow> recentGreetings \<Rightarrow> jsstring \<Rightarrow> jsnumber \<Rightarrow>
     (nat \<times> (error + jsstring \<times> string)) \<times> recentGreetings" where
  "generateGreetingV2 U cfg w recent name age =
     (case race cfg w of
        (t, Inl e) \<Rightarrow> ((t, Inl e), recent)
      | (t, Inr win) \<Rightarrow>
          (let raw = wtext win;
               cands = candidates U raw
           in if cands = [] then ((t, Inl (Error ''Error'' ''EMPTY_GENERATION'')), recent)
              else
                (let key = profileKey U name age;
                     history = historyOf recent key;
                     picked = chooseMostNovel U cands (Some history);
                     cleaned = sanitizeNoName U name picked;
                     finalText = (if cleaned \<noteq> [] then cleaned else picked)
                 in ((t, Inr (finalText, if provider win \<noteq> [] then provider win else ''unknown'')),
                     recent(key \<mapsto> take 20 (finalText # history))))))"

section \<open>Responses\<close>

datatype body =
    OkGreeting jsstring string
  | OkText jsstring jsstring jsstring string
  | OkMotivation jsstring string
  | Failed string bool
  | FailedFallback string jsstring

type_synonym response = "nat \<times> body"

text \<open>The \<open>catch\<close> branch of the greeting and text endpoints: status 504 with
  \<open>{ok: false, error: 'DEADLINE_EXCEEDED', timed_out: true}\<close> for that message, status
  502 with the message otherwise.\<close>

definition errorResponse :: "error \<Rightarrow> response" where
  "errorResponse err =
     (if errorString err = ''DEADLINE_EXCEEDED'' then (504, Failed ''DEADLINE_EXCEEDED'' True)
      else (502, Failed (errorString err) False))"

text \<open>\<open>POST /agent/generate-greeting\<close>. The character of the request and its theme
  only enter the prompt.\<close>

definition generateGreeting ::
  "engine \<Rightarrow> config \<Rightarrow> world \<Rightarrow> recentGreetings \<Rightarrow> jsstring \<Rightarrow> jsnumber \<Rightarrow>
     response \<times> recentGreetings" where
  "generateGreeting U cfg w recent name age =
     (case generateGreetingV2 U cfg w recent name age of
        ((t, Inr (txt, source)), recent') \<Rightarrow> ((200, OkGreeting txt source), recent')
      | ((t, Inl err), recent') \<Rightarrow> (errorResponse err, recent'))"

section \<open>Reading sentences (index.js, lines 353--425)\<close>

text \<open>The three sentence banks, as UTF-16 code units.\<close>

definition BANK_A1 :: "jsstring list" where
  "BANK_A1 =
     [js ''Ala ma kota.'',
      js ''Mi'' @ [0x15B] @ js '' je miodek.'',
      js ''Pi'' @ [0x142] @ js ''ka le'' @ [0x17C] @ js ''y na trawie.'',
      js ''Pies biegnie do domu.'',
      js ''S'' @ [0x142] @ js ''o'' @ [0x144] @ js ''ce '' @ [0x15B] @ js ''wieci jasno.'']"

definition BANK_A2 :: "jsstring list" where
  "BANK_A2 =
     [js ''W ogrodzie rosn'' @ [0x105] @ js '' kolorowe kwiaty.'',
      js ''Kasia czyta ciekaw'' @ [0x105] @ js '' ksi'' @ [0x105, 0x17C] @ js ''k'' @ [0x119] @ js '' o zwierz'' @ [0x119] @ js ''tach.'',
      js ''Na spacerze spotkali'' @ [0x15B] @ js ''my weso'' @ [0x142] @ js ''ego psa.'',
      js ''Dzi'' @ [0x15B] @ js '' po po'' @ [0x142] @ js ''udniu pojedziemy na rowerach.'']"

definition BANK_B1 :: "jsstring list" where
  "BANK_B1 =
     [js ''Cho'' @ [0x107] @ js '' pada'' @ [0x142] @ js '' deszcz, wybrali'' @ [0x15B] @ js ''my si'' @ [0x119] @ js '' na d'' @ [0x142] @ js ''ugi spacer.'',
      js ''Lubi'' @ [0x119] @ js '' zagadki, bo rozwijaj'' @ [0x105] @ js '' wyobra'' @ [0x17A] @ js ''ni'' @ [0x119] @ js '' i spostrzegawczo'' @ [0x15B, 0x107] @ js ''.'',
      js ''Z zachwytem obserwowa'' @ [0x142] @ js ''em, jak motyl siada na li'' @ [0x15B] @ js ''ciu.'',
      js ''Po kolacji wsp'' @ [0xF3] @ js ''lnie u'' @ [0x142] @ js ''o'' @ [0x17C] @ js ''yli'' @ [0x15B] @ js ''my plan jutrzejszej wycieczki.'']"

definition bankByLevel :: "engine \<Rightarrow> jsstring \<Rightarrow> jsstring list" where
  "bankByLevel U level =
     (let L = toUpperCase U level in
      if L = js ''B1'' then BANK_B1
      else if L = js ''A2'' then BANK_A2
      else BANK_A1)"

text \<open>\<open>pick(arr) = arr[Math.floor(Math.random() * arr.length)]\<close>: some index below the
  length.\<close>

definition pick :: "'a list \<Rightarrow> nat \<Rightarrow> 'a" where
  "pick arr r = arr ! (r mod length arr)"

text \<open>\<open>.replace(/^["'\<dots>]+|["'\<dots>]+$/g, '')\<close>: the quotation marks (ASCII double and
  single, U+201E, U+201D) at the two ends go.\<close>

definition isQuote :: "nat \<Rightarrow> bool" where
  "isQuote c \<longleftrightarrow> c \<in> set [34, 39, 8222, 8221]"

definition stripQuotes :: "jsstring \<Rightarrow> jsstring" where
  "stripQuotes s = rev (dropWhile isQuote (rev (dropWhile isQuote s)))"

text \<open>\<open>POST /agent/generate-text\<close>.\<close>

definition generateText :: "engine \<Rightarrow> config \<Rightarrow> world \<Rightarrow> jsstring \<Rightarrow> jsstring \<Rightarrow> response" where
  "generateText U cfg w language level =
     (if MOCK_TEXT cfg
      then (200, OkText (pick (bankByLevel U level) (random w)) level language ''mock'')
      else case race cfg w of
             (t, Inl err) \<Rightarrow> errorResponse err
           | (t, Inr win) \<Rightarrow>
               (let txt = trim (stripQuotes (wtext win)) in
                if txt = [] then errorResponse (Error ''Error'' ''EMPTY_GENERATION'')
                else (200, OkText txt level language (provider win))))"

section \<open>Accuracy of the speech recognition (src/unnamed/part_001, lines 249--260)\<close>








section \<open>Motivation tightener (src/unnamed/part_001, lines 501--531)\<close>










text \<open>\<open>s.replace(/\s+\S*$/, '')\<close>: the match starts at the last run of white space and
  reaches the end; a string without white space has no match.\<close>

definition cutLastWord :: "jsstring \<Rightarrow> jsstring" where
  "cutLastWord s =
     (if list_ex isSpace s then rev (dropWhile isSpace (dropWhile (\<lambda>c. \<not> isSpace c) (rev s)))
      else s)"







definition hardLimit :: "nat \<Rightarrow> jsstring \<Rightarrow> jsstring" where
  "hardLimit maxChars s =
     (if maxChars < length s then trim (cutLastWord (take maxChars s)) else s)"



section \<open>Motivation endpoint (src/unnamed/part_001, lines 533--599)\<close>




section \<open>The server\<close>




section \<open>A concrete table for evaluation\<close>

text \<open>The restriction of the Unicode tables to ASCII, the nine Polish letters with
  diacritics and a few emoji, with exact arithmetic for the doubles. On strings made of
  these characters (with the other punctuation of the source's patterns, which has no
  case) and on quotients that are doubles it computes what the engine computes; it is
  used only to run the model on concrete inputs.\<close>

definition lowerChar :: "nat \<Rightarrow> nat" where
  "lowerChar c =
     (if 65 \<le> c \<and> c \<le> 90 then c + 32
      else if c = 0xD3 then 0xF3
      else if c \<in> set [0x104, 0x106, 0x118, 0x141, 0x143, 0x15A, 0x179, 0x17B] then c + 1
      else c)"

definition foldChar :: "nat \<Rightarrow> nat" where
  "foldChar c = (if c = 0x17F then 0x73 else if c = 0x212A then 0x6B else lowerChar c)"

definition polishLetter :: "nat \<Rightarrow> bool" where
  "polishLetter c \<longleftrightarrow>
     (65 \<le> c \<and> c \<le> 90) \<or> (97 \<le> c \<and> c \<le> 122) \<or>
     c \<in> set [0xD3, 0xF3, 0x104, 0x105, 0x106, 0x107, 0x118, 0x119, 0x141, 0x142,
               0x143, 0x144, 0x15A, 0x15B, 0x179, 0x17A, 0x17B, 0x17C]"

definition upperChar :: "nat \<Rightarrow> nat" where
  "upperChar c =
     (if 97 \<le> c \<and> c \<le> 122 then c - 32
      else if c = 0xF3 then 0xD3
      else if c \<in> set [0x105, 0x107, 0x119, 0x142, 0x144, 0x15B, 0x17A, 0x17C] then c - 1
      else c)"

definition polish :: engine where
  "polish = \<lparr> toLowerCase = map lowerChar,
              toUpperCase = map upperChar,
              canonicalize = foldChar,
              isLetter = polishLetter,
              isMark = (\<lambda>c. 0x300 \<le> c \<and> c \<le> 0x36F),
              isExtPict = (\<lambda>c. c \<in> set [0x2728, 0x1F4AA, 0x1F4D6, 0x1F600, 0x1F680]),
              toDouble = (\<lambda>x. x) \<rparr>"

section \<open>Notions used to state the properties\<close>



text \<open>The text starts with a greeting word in the sense of the sanitizer's own pattern:
  optional white space, one of \<open>FORBIDDEN_HELLOS\<close> in any case, a word boundary.\<close>

definition startsWithHello :: "engine \<Rightarrow> jsstring \<Rightarrow> bool" where
  "startsWithHello U s \<longleftrightarrow>
     find (wordThenBoundary U (dropWhile isSpace (decode s))) FORBIDDEN_HELLOS \<noteq> None"


text \<open>The items of a text: its lines, trimmed, the empty ones dropped, the leading
  list markers stripped, what became empty dropped.\<close>

definition items :: "jsstring \<Rightarrow> jsstring list" where
  "items text = filter nonEmpty (map stripMarker (filter nonEmpty (map trim (splitLines text))))"










section \<open>Properties of novelty selection\<close>

lemma novelLoop_member:
  "fst (novelLoop U cs hs (b, s)) = b \<or> fst (novelLoop U cs hs (b, s)) \<in> set cs"
proof (induction cs arbitrary: b s)
  case Nil
  show ?case by simp
next
  case (Cons c cs)
  show ?case
  proof (cases "maxSim U c hs < s")
    case True
    with Cons.IH [of c "maxSim U c hs"] show ?thesis by (auto simp: Let_def)
  next
    case False
    with Cons.IH [of b s] show ?thesis by (auto simp: Let_def)
  qed
qed

lemma firstOrEmpty_hd: "cands \<noteq> [] \<Longrightarrow> firstOrEmpty cands = hd cands"
  by (cases cands) (auto simp: firstOrEmpty_def)

text \<open>
  C5. For every non-empty candidate list \<open>chooseMostNovel\<close> returns a member of the list,
  and with an empty or absent history it returns the first candidate.
\<close>

theorem chooseMostNovel_member_first:
  "cands \<noteq> [] \<Longrightarrow>
     chooseMostNovel U cands history \<in> set cands \<and>
     chooseMostNovel U cands None = hd cands \<and>
     chooseMostNovel U cands (Some []) = hd cands"
proof -
  assume ne: "cands \<noteq> []"
  have first: "firstOrEmpty cands = hd cands" using ne by (rule firstOrEmpty_hd)
  have hd_in: "hd cands \<in> set cands" using ne by simp
  have mem: "chooseMostNovel U cands history \<in> set cands"
  proof (cases history)
    case None
    then show ?thesis using first hd_in by (simp add: chooseMostNovel_def)
  next
    case (Some hs)
    show ?thesis
    proof (cases "hs = []")
      case True
      with Some show ?thesis using first hd_in by (simp add: chooseMostNovel_def)
    next
      case False
      from novelLoop_member [of U cands hs "[]" 1]
      show ?thesis using Some False first hd_in
        by (auto simp: chooseMostNovel_def Let_def)
    qed
  qed
  show ?thesis using mem first by (simp add: chooseMostNovel_def)
qed

theorem chooseMostNovel_member_first_witness:
  "chooseMostNovel polish [js ''a b'', js ''c d''] (Some [js ''a b''])
     \<in> set [js ''a b'', js ''c d''] \<and>
   chooseMostNovel polish [js ''a b'', js ''c d''] None = js ''a b''"
  using chooseMostNovel_member_first [of "[js ''a b'', js ''c d'']" polish "Some [js ''a b'']"]
  by simp

section \<open>Properties of the Jaccard similarity\<close>

lemma set_uniq: "set (uniq xs) = set xs"
  by (induction xs rule: uniq.induct) auto

lemma distinct_uniq: "distinct (uniq xs)"
  by (induction xs rule: uniq.induct) (auto simp: set_uniq)

lemma distinct_tokens: "distinct (tokens U a)"
  by (simp add: tokens_def distinct_uniq)

lemma inter_card:
  "distinct A \<Longrightarrow> length (filter (\<lambda>w. w \<in> set B) A) = card (set A \<inter> set B)"
  by (simp add: distinct_length_filter Int_commute)

lemma jaccard_sym: "jaccard U a b = jaccard U b a"
proof -
  have "card (set (tokens U a) \<inter> set (tokens U b)) = card (set (tokens U b) \<inter> set (tokens U a))"
    by (simp add: Int_commute)
  then have "length (filter (\<lambda>w. w \<in> set (tokens U b)) (tokens U a))
           = length (filter (\<lambda>w. w \<in> set (tokens U a)) (tokens U b))"
    by (simp add: inter_card distinct_tokens)
  then show ?thesis
    by (simp add: jaccard_def Let_def add.commute conj_commute)
qed

lemma jaccard_self: "toDouble U 1 = 1 \<Longrightarrow> jaccard U a a = 1"
proof (cases "tokens U a = []")
  case True
  then show ?thesis by (simp add: jaccard_def)
next
  case False
  assume one: "toDouble U 1 = 1"
  from False have "length (tokens U a) \<noteq> 0" by simp
  then show ?thesis using one by (simp add: jaccard_def Let_def)
qed

lemma jaccard_disjoint:
  assumes "toDouble U 0 = 0"
    and "set (tokens U a) \<inter> set (tokens U b) = {}"
    and "tokens U a \<noteq> [] \<or> tokens U b \<noteq> []"
  shows "jaccard U a b = 0"
proof -
  have "length (filter (\<lambda>w. w \<in> set (tokens U b)) (tokens U a)) = 0"
    using assms(2) by (simp add: inter_card distinct_tokens)
  then show ?thesis using assms(1,3) by (simp add: jaccard_def Let_def)
qed

lemmas run =
  js_def tokens_def normalize_def polish_def lowerChar_def upperChar_def foldChar_def
  polishLetter_def isSpace_def trim_def collapseSpaces_def normPunct_def nonEmpty_def
  Let_def

text \<open>
  C6, as stated: the similarity is symmetric, is 1 for a string and itself, and is 0 for
  two strings with disjoint token sets. The last part fails where both token sets are
  empty: they are disjoint, and the guard \<open>if (!A.size && !B.size) return 1\<close> answers 1.
\<close>

theorem jaccard_disjoint_empty_counterexample:
  "set (tokens polish (js ''!'')) \<inter> set (tokens polish (js ''?'')) = {} \<and>
   jaccard polish (js ''!'') (js ''?'') = 1"
  by (simp add: run jaccard_def)

text \<open>
  C6, amended: the similarity is symmetric; it is 1 for a string and itself; and it is 0
  for two strings whose token sets are disjoint and not both empty. (The doubles
  \<open>0/n\<close> and \<open>n/n\<close> are 0 and 1: rounding to a double leaves 0 and 1 alone.)
\<close>

theorem jaccard_properties:
  "jaccard U a b = jaccard U b a \<and>
   (toDouble U 1 = 1 \<longrightarrow> jaccard U a a = 1) \<and>
   (toDouble U 0 = 0 \<and> set (tokens U a) \<inter> set (tokens U b) = {} \<and>
    (tokens U a \<noteq> [] \<or> tokens U b \<noteq> []) \<longrightarrow> jaccard U a b = 0)"
  using jaccard_sym jaccard_self jaccard_disjoint by blast

theorem jaccard_properties_witness:
  "toDouble polish 1 = 1 \<and> toDouble polish 0 = 0 \<and>
   tokens polish (js ''Ala ma kota'') = [js ''ala'', js ''ma'', js ''kota''] \<and>
   tokens polish (js ''Pies, pies!'') = [js ''pies''] \<and>
   jaccard polish (js ''Pies, pies!'') (js ''Pies, pies!'') = 1 \<and>
   jaccard polish (js ''Ala ma kota'') (js ''Pies, pies!'') = 0"
proof -
  have a: "tokens polish (js ''Ala ma kota'') = [js ''ala'', js ''ma'', js ''kota'']"
    by (simp add: run)
  have b: "tokens polish (js ''Pies, pies!'') = [js ''pies'']"
    by (simp add: run)
  have d: "set (tokens polish (js ''Ala ma kota'')) \<inter> set (tokens polish (js ''Pies, pies!'')) = {}"
    unfolding a b by (simp add: js_def)
  have one: "toDouble polish 1 = 1" and zero: "toDouble polish 0 = 0"
    by (simp_all add: polish_def)
  show ?thesis
    using jaccard_properties [of polish "js ''Ala ma kota''" "js ''Pies, pies!''"]
      jaccard_properties [of polish "js ''Pies, pies!''" "js ''Pies, pies!''"] a b d one zero
    by simp
qed

section \<open>Properties of the race\<close>

lemma firstFulfilled_None:
  "firstFulfilled ps = None \<Longrightarrow> Fulfilled t v \<notin> set ps"
  by (induction ps rule: firstFulfilled.induct) (auto split: option.splits if_splits)



lemma rejections_None:
  "rejections ps = None \<Longrightarrow> \<exists>p \<in> set ps. \<forall>t e. p \<noteq> Rejected t e"
  by (induction ps rule: rejections.induct) (auto split: option.splits)





lemma generateGreeting_failure:
  "race cfg w = (t, Inl e) \<Longrightarrow>
     generateGreeting U cfg w recent name age = (errorResponse e, recent)"
  by (simp add: generateGreeting_def generateGreetingV2_def)

lemma generateText_failure:
  "\<not> MOCK_TEXT cfg \<Longrightarrow> race cfg w = (t, Inl e) \<Longrightarrow>
     generateText U cfg w language level = errorResponse e"
  by (simp add: generateText_def)

text \<open>
  C1, as stated: with no provider configured the greeting and the text operation fail
  with a no-provider condition and no other error. With the mock mode on, the text
  endpoint answers 200 without any provider; and the failure of the two endpoints with
  no provider is the very answer they give when both configured providers fail.
\<close>

theorem no_provider_counterexample:
  "generateText polish \<lparr>GROQ_API_KEY = False, openai = False, DEADLINE_MS = 1200, MOCK_TEXT = True\<rparr> \<lparr>groqReply = GroqSilent, openaiReply = OpenaiSilent, random = 0\<rparr> (js ''pl'') (js ''A1'') =
     (200, OkText (js ''Ala ma kota.'') (js ''A1'') (js ''pl'') ''mock'') \<and>
   fst (generateGreeting polish \<lparr>GROQ_API_KEY = False, openai = False, DEADLINE_MS = 1200, MOCK_TEXT = False\<rparr> \<lparr>groqReply = GroqSilent, openaiReply = OpenaiSilent, random = 0\<rparr> Map.empty (js ''Zosia'') (Num 7)) =
     (502, Failed ''All promises were rejected'' False) \<and>
   fst (generateGreeting polish \<lparr>GROQ_API_KEY = True, openai = True, DEADLINE_MS = 1200, MOCK_TEXT = False\<rparr> \<lparr>groqReply = GroqHttp 80 500 [], openaiReply = OpenaiContent 90 [], random = 0\<rparr> Map.empty (js ''Zosia'') (Num 7)) =
     (502, Failed ''All promises were rejected'' False)"
  by code_simp

text \<open>
  C1, amended: with no provider configured the race fails at instant 0, before the
  deadline timer can fire whatever the deadline is, with the \<open>AggregateError\<close> of
  \<open>Promise.any\<close> over no promise and not with \<open>DEADLINE_EXCEEDED\<close>; the greeting
  endpoint, and the text endpoint outside the mock mode, answer 502 with the message
  \<open>All promises were rejected\<close>, and the map of greetings is left as it was.
\<close>

theorem no_provider_fails_at_once:
  assumes "\<not> GROQ_API_KEY cfg" and "\<not> openai cfg"
  shows "race cfg w = (0, Inl (AggregateError [])) \<and>
         0 < timerInstant (DEADLINE_MS cfg) \<and>
         generateGreeting U cfg w recent name age =
           ((502, Failed ''All promises were rejected'' False), recent) \<and>
         (\<not> MOCK_TEXT cfg \<longrightarrow>
            generateText U cfg w language level =
              (502, Failed ''All promises were rejected'' False))"
proof -
  have pos: "0 < timerInstant (DEADLINE_MS cfg)" by (simp add: timerInstant_def)
  have r: "race cfg w = (0, Inl (AggregateError []))"
    using assms pos by (simp add: race_def racers_def promiseAny_def withDeadline_def Let_def)
  have e: "errorResponse (AggregateError []) = (502, Failed ''All promises were rejected'' False)"
    by (simp add: errorResponse_def errorString_def)
  show ?thesis
    using r pos generateGreeting_failure [OF r] generateText_failure [OF _ r]
    by (simp add: e)
qed

theorem no_provider_fails_at_once_witness:
  "race \<lparr>GROQ_API_KEY = False, openai = False, DEADLINE_MS = 1200, MOCK_TEXT = False\<rparr> \<lparr>groqReply = GroqSilent, openaiReply = OpenaiSilent, random = 0\<rparr> = (0, Inl (AggregateError [])) \<and>
   generateGreeting polish \<lparr>GROQ_API_KEY = False, openai = False, DEADLINE_MS = 1200, MOCK_TEXT = False\<rparr> \<lparr>groqReply = GroqSilent, openaiReply = OpenaiSilent, random = 0\<rparr> Map.empty (js ''Zosia'') (Num 7) =
     ((502, Failed ''All promises were rejected'' False), Map.empty) \<and>
   generateText polish \<lparr>GROQ_API_KEY = False, openai = False, DEADLINE_MS = 1200, MOCK_TEXT = False\<rparr> \<lparr>groqReply = GroqSilent, openaiReply = OpenaiSilent, random = 0\<rparr> (js ''pl'') (js ''A1'') =
     (502, Failed ''All promises were rejected'' False)"
  using no_provider_fails_at_once
    [of "\<lparr>GROQ_API_KEY = False, openai = False, DEADLINE_MS = 1200, MOCK_TEXT = False\<rparr>" "\<lparr>groqReply = GroqSilent, openaiReply = OpenaiSilent, random = 0\<rparr>" polish Map.empty "js ''Zosia''" "Num 7" "js ''pl''" "js ''A1''"]
  by simp




section \<open>Properties of the greeting history\<close>










section \<open>The sanitizer at the interface\<close>

lemma generateGreetingV2_unsanitized:
  assumes "race cfg w = (t, Inr win)"
    and "candidates U (wtext win) \<noteq> []"
    and "sanitizeNoName U name
           (chooseMostNovel U (candidates U (wtext win))
              (Some (historyOf recent (profileKey U name age)))) = []"
  shows "\<exists>source. generateGreetingV2 U cfg w recent name age =
           ((t, Inr (chooseMostNovel U (candidates U (wtext win))
                       (Some (historyOf recent (profileKey U name age))), source)),
            recent(profileKey U name age \<mapsto>
              take 20 (chooseMostNovel U (candidates U (wtext win))
                         (Some (historyOf recent (profileKey U name age)))
                       # historyOf recent (profileKey U name age))))"
  using assms by (simp add: generateGreetingV2_def Let_def)

lemma hej_example:
  "generateGreeting polish \<lparr>GROQ_API_KEY = True, openai = False, DEADLINE_MS = 1200, MOCK_TEXT = False\<rparr> \<lparr>groqReply = GroqHttp 50 200 (js ''- Hej, otw'' @ [0xF3] @ js ''rzmy razem now'' @ [0x105] @ js '' ksi'' @ [0x105, 0x17C] @ js ''k'' @ [0x119] @ js '' pe'' @ [0x142] @ js ''n'' @ [0x105] @ js '' przyg'' @ [0xF3] @ js ''d!''), openaiReply = OpenaiSilent, random = 0\<rparr> Map.empty (js ''Zosia'') (Num 7) =
     ((200, OkGreeting (js ''Hej, otw'' @ [0xF3] @ js ''rzmy razem now'' @ [0x105] @ js '' ksi'' @ [0x105, 0x17C] @ js ''k'' @ [0x119] @ js '' pe'' @ [0x142] @ js ''n'' @ [0x105] @ js '' przyg'' @ [0xF3] @ js ''d!'') ''groq''),
      [(js ''zosia'', Some (Num 7)) \<mapsto> [js ''Hej, otw'' @ [0xF3] @ js ''rzmy razem now'' @ [0x105] @ js '' ksi'' @ [0x105, 0x17C] @ js ''k'' @ [0x119] @ js '' pe'' @ [0x142] @ js ''n'' @ [0x105] @ js '' przyg'' @ [0xF3] @ js ''d!'']])"
proof -
  have r: "race \<lparr>GROQ_API_KEY = True, openai = False, DEADLINE_MS = 1200, MOCK_TEXT = False\<rparr> \<lparr>groqReply = GroqHttp 50 200 (js ''- Hej, otw'' @ [0xF3] @ js ''rzmy razem now'' @ [0x105] @ js '' ksi'' @ [0x105, 0x17C] @ js ''k'' @ [0x119] @ js '' pe'' @ [0x142] @ js ''n'' @ [0x105] @ js '' przyg'' @ [0xF3] @ js ''d!''), openaiReply = OpenaiSilent, random = 0\<rparr> =
      (50, Inr \<lparr>provider = ''groq'', wtext = js ''- Hej, otw'' @ [0xF3] @ js ''rzmy razem now'' @ [0x105] @ js '' ksi'' @ [0x105, 0x17C] @ js ''k'' @ [0x119] @ js '' pe'' @ [0x142] @ js ''n'' @ [0x105] @ js '' przyg'' @ [0xF3] @ js ''d!'', latency_ms = 50\<rparr>)"
    by code_simp
  have c: "candidates polish (js ''- Hej, otw'' @ [0xF3] @ js ''rzmy razem now'' @ [0x105] @ js '' ksi'' @ [0x105, 0x17C] @ js ''k'' @ [0x119] @ js '' pe'' @ [0x142] @ js ''n'' @ [0x105] @ js '' przyg'' @ [0xF3] @ js ''d!'') = [js ''Hej, otw'' @ [0xF3] @ js ''rzmy razem now'' @ [0x105] @ js '' ksi'' @ [0x105, 0x17C] @ js ''k'' @ [0x119] @ js '' pe'' @ [0x142] @ js ''n'' @ [0x105] @ js '' przyg'' @ [0xF3] @ js ''d!'']"
    by code_simp
  have k: "profileKey polish (js ''Zosia'') (Num 7) = (js ''zosia'', Some (Num 7))"
    by code_simp
  have p: "chooseMostNovel polish [js ''Hej, otw'' @ [0xF3] @ js ''rzmy razem now'' @ [0x105] @ js '' ksi'' @ [0x105, 0x17C] @ js ''k'' @ [0x119] @ js '' pe'' @ [0x142] @ js ''n'' @ [0x105] @ js '' przyg'' @ [0xF3] @ js ''d!''] (Some []) = js ''Hej, otw'' @ [0xF3] @ js ''rzmy razem now'' @ [0x105] @ js '' ksi'' @ [0x105, 0x17C] @ js ''k'' @ [0x119] @ js '' pe'' @ [0x142] @ js ''n'' @ [0x105] @ js '' przyg'' @ [0xF3] @ js ''d!''"
    by (simp add: chooseMostNovel_def firstOrEmpty_def js_def)
  have s: "sanitizeNoName polish (js ''Zosia'') (js ''Hej, otw'' @ [0xF3] @ js ''rzmy razem now'' @ [0x105] @ js '' ksi'' @ [0x105, 0x17C] @ js ''k'' @ [0x119] @ js '' pe'' @ [0x142] @ js ''n'' @ [0x105] @ js '' przyg'' @ [0xF3] @ js ''d!'') = []"
    by code_simp
  show ?thesis
    using r c k p s
    by (simp add: generateGreeting_def generateGreetingV2_def Let_def historyOf_def)
qed

lemma hej_starts: "startsWithHello polish (js ''Hej, otw'' @ [0xF3] @ js ''rzmy razem now'' @ [0x105] @ js '' ksi'' @ [0x105, 0x17C] @ js ''k'' @ [0x119] @ js '' pe'' @ [0x142] @ js ''n'' @ [0x105] @ js '' przyg'' @ [0xF3] @ js ''d!'')"
  by code_simp

text \<open>
  C10. When the sanitizer reduces the selected candidate to the empty string, the
  greeting pipeline returns the unsanitized candidate and stores it in the history; so
  there are replies of a provider for which the greeting that is returned starts with
  a forbidden greeting word.
\<close>

theorem unsanitized_fallback:
  "(race cfg w = (t, Inr win) \<and> candidates U (wtext win) \<noteq> [] \<and>
    picked = chooseMostNovel U (candidates U (wtext win))
               (Some (historyOf recent (profileKey U name age))) \<and>
    sanitizeNoName U name picked = []
    \<longrightarrow> (\<exists>source. generateGreetingV2 U cfg w recent name age =
           ((t, Inr (picked, source)),
            recent(profileKey U name age \<mapsto>
                     take 20 (picked # historyOf recent (profileKey U name age)))))) \<and>
   (\<exists>w' txt source recent'.
      generateGreeting polish \<lparr>GROQ_API_KEY = True, openai = False, DEADLINE_MS = 1200, MOCK_TEXT = False\<rparr> w' Map.empty (js ''Zosia'') (Num 7) =
        ((200, OkGreeting txt source), recent') \<and>
      recent' (js ''zosia'', Some (Num 7)) = Some [txt] \<and>
      startsWithHello polish txt)"
proof -
  have "\<exists>w' txt source recent'.
      generateGreeting polish \<lparr>GROQ_API_KEY = True, openai = False, DEADLINE_MS = 1200, MOCK_TEXT = False\<rparr> w' Map.empty (js ''Zosia'') (Num 7) =
        ((200, OkGreeting txt source), recent') \<and>
      recent' (js ''zosia'', Some (Num 7)) = Some [txt] \<and>
      startsWithHello polish txt"
  proof (intro exI conjI)
    show "generateGreeting polish \<lparr>GROQ_API_KEY = True, openai = False, DEADLINE_MS = 1200, MOCK_TEXT = False\<rparr> \<lparr>groqReply = GroqHttp 50 200 (js ''- Hej, otw'' @ [0xF3] @ js ''rzmy razem now'' @ [0x105] @ js '' ksi'' @ [0x105, 0x17C] @ js ''k'' @ [0x119] @ js '' pe'' @ [0x142] @ js ''n'' @ [0x105] @ js '' przyg'' @ [0xF3] @ js ''d!''), openaiReply = OpenaiSilent, random = 0\<rparr> Map.empty (js ''Zosia'') (Num 7) =
        ((200, OkGreeting (js ''Hej, otw'' @ [0xF3] @ js ''rzmy razem now'' @ [0x105] @ js '' ksi'' @ [0x105, 0x17C] @ js ''k'' @ [0x119] @ js '' pe'' @ [0x142] @ js ''n'' @ [0x105] @ js '' przyg'' @ [0xF3] @ js ''d!'') ''groq''), [(js ''zosia'', Some (Num 7)) \<mapsto> [js ''Hej, otw'' @ [0xF3] @ js ''rzmy razem now'' @ [0x105] @ js '' ksi'' @ [0x105, 0x17C] @ js ''k'' @ [0x119] @ js '' pe'' @ [0x142] @ js ''n'' @ [0x105] @ js '' przyg'' @ [0xF3] @ js ''d!'']])"
      by (rule hej_example)
    show "[(js ''zosia'', Some (Num 7)) \<mapsto> [js ''Hej, otw'' @ [0xF3] @ js ''rzmy razem now'' @ [0x105] @ js '' ksi'' @ [0x105, 0x17C] @ js ''k'' @ [0x119] @ js '' pe'' @ [0x142] @ js ''n'' @ [0x105] @ js '' przyg'' @ [0xF3] @ js ''d!'']] (js ''zosia'', Some (Num 7)) = Some [js ''Hej, otw'' @ [0xF3] @ js ''rzmy razem now'' @ [0x105] @ js '' ksi'' @ [0x105, 0x17C] @ js ''k'' @ [0x119] @ js '' pe'' @ [0x142] @ js ''n'' @ [0x105] @ js '' przyg'' @ [0xF3] @ js ''d!'']"
      by simp
    show "startsWithHello polish (js ''Hej, otw'' @ [0xF3] @ js ''rzmy razem now'' @ [0x105] @ js '' ksi'' @ [0x105, 0x17C] @ js ''k'' @ [0x119] @ js '' pe'' @ [0x142] @ js ''n'' @ [0x105] @ js '' przyg'' @ [0xF3] @ js ''d!'')"
      by (rule hej_starts)
  qed
  then show ?thesis using generateGreetingV2_unsanitized by blast
qed

theorem unsanitized_fallback_witness:
  "sanitizeNoName polish (js ''Zosia'') (js ''Hej, otw'' @ [0xF3] @ js ''rzmy razem now'' @ [0x105] @ js '' ksi'' @ [0x105, 0x17C] @ js ''k'' @ [0x119] @ js '' pe'' @ [0x142] @ js ''n'' @ [0x105] @ js '' przyg'' @ [0xF3] @ js ''d!'') = [] \<and>
   fst (generateGreetingV2 polish \<lparr>GROQ_API_KEY = True, openai = False, DEADLINE_MS = 1200, MOCK_TEXT = False\<rparr> \<lparr>groqReply = GroqHttp 50 200 (js ''- Hej, otw'' @ [0xF3] @ js ''rzmy razem now'' @ [0x105] @ js '' ksi'' @ [0x105, 0x17C] @ js ''k'' @ [0x119] @ js '' pe'' @ [0x142] @ js ''n'' @ [0x105] @ js '' przyg'' @ [0xF3] @ js ''d!''), openaiReply = OpenaiSilent, random = 0\<rparr> Map.empty (js ''Zosia'') (Num 7)) =
     (50, Inr (js ''Hej, otw'' @ [0xF3] @ js ''rzmy razem now'' @ [0x105] @ js '' ksi'' @ [0x105, 0x17C] @ js ''k'' @ [0x119] @ js '' pe'' @ [0x142] @ js ''n'' @ [0x105] @ js '' przyg'' @ [0xF3] @ js ''d!'', ''groq'')) \<and>
   startsWithHello polish (js ''Hej, otw'' @ [0xF3] @ js ''rzmy razem now'' @ [0x105] @ js '' ksi'' @ [0x105, 0x17C] @ js ''k'' @ [0x119] @ js '' pe'' @ [0x142] @ js ''n'' @ [0x105] @ js '' przyg'' @ [0xF3] @ js ''d!'')"
proof -
  have r: "race \<lparr>GROQ_API_KEY = True, openai = False, DEADLINE_MS = 1200, MOCK_TEXT = False\<rparr> \<lparr>groqReply = GroqHttp 50 200 (js ''- Hej, otw'' @ [0xF3] @ js ''rzmy razem now'' @ [0x105] @ js '' ksi'' @ [0x105, 0x17C] @ js ''k'' @ [0x119] @ js '' pe'' @ [0x142] @ js ''n'' @ [0x105] @ js '' przyg'' @ [0xF3] @ js ''d!''), openaiReply = OpenaiSilent, random = 0\<rparr> =
      (50, Inr \<lparr>provider = ''groq'', wtext = js ''- Hej, otw'' @ [0xF3] @ js ''rzmy razem now'' @ [0x105] @ js '' ksi'' @ [0x105, 0x17C] @ js ''k'' @ [0x119] @ js '' pe'' @ [0x142] @ js ''n'' @ [0x105] @ js '' przyg'' @ [0xF3] @ js ''d!'', latency_ms = 50\<rparr>)"
    by code_simp
  have c: "candidates polish (js ''- Hej, otw'' @ [0xF3] @ js ''rzmy razem now'' @ [0x105] @ js '' ksi'' @ [0x105, 0x17C] @ js ''k'' @ [0x119] @ js '' pe'' @ [0x142] @ js ''n'' @ [0x105] @ js '' przyg'' @ [0xF3] @ js ''d!'') = [js ''Hej, otw'' @ [0xF3] @ js ''rzmy razem now'' @ [0x105] @ js '' ksi'' @ [0x105, 0x17C] @ js ''k'' @ [0x119] @ js '' pe'' @ [0x142] @ js ''n'' @ [0x105] @ js '' przyg'' @ [0xF3] @ js ''d!'']"
    by code_simp
  have k: "profileKey polish (js ''Zosia'') (Num 7) = (js ''zosia'', Some (Num 7))"
    by code_simp
  have p: "chooseMostNovel polish [js ''Hej, otw'' @ [0xF3] @ js ''rzmy razem now'' @ [0x105] @ js '' ksi'' @ [0x105, 0x17C] @ js ''k'' @ [0x119] @ js '' pe'' @ [0x142] @ js ''n'' @ [0x105] @ js '' przyg'' @ [0xF3] @ js ''d!''] (Some []) = js ''Hej, otw'' @ [0xF3] @ js ''rzmy razem now'' @ [0x105] @ js '' ksi'' @ [0x105, 0x17C] @ js ''k'' @ [0x119] @ js '' pe'' @ [0x142] @ js ''n'' @ [0x105] @ js '' przyg'' @ [0xF3] @ js ''d!''"
    by (simp add: chooseMostNovel_def firstOrEmpty_def js_def)
  have s: "sanitizeNoName polish (js ''Zosia'') (js ''Hej, otw'' @ [0xF3] @ js ''rzmy razem now'' @ [0x105] @ js '' ksi'' @ [0x105, 0x17C] @ js ''k'' @ [0x119] @ js '' pe'' @ [0x142] @ js ''n'' @ [0x105] @ js '' przyg'' @ [0xF3] @ js ''d!'') = []"
    by code_simp
  have h: "historyOf Map.empty (js ''zosia'', Some (Num 7)) = []"
    by (simp add: historyOf_def)
  have st: "startsWithHello polish (js ''Hej, otw'' @ [0xF3] @ js ''rzmy razem now'' @ [0x105] @ js '' ksi'' @ [0x105, 0x17C] @ js ''k'' @ [0x119] @ js '' pe'' @ [0x142] @ js ''n'' @ [0x105] @ js '' przyg'' @ [0xF3] @ js ''d!'')"
    by code_simp
  have g: "\<exists>source. generateGreetingV2 polish \<lparr>GROQ_API_KEY = True, openai = False, DEADLINE_MS = 1200, MOCK_TEXT = False\<rparr> \<lparr>groqReply = GroqHttp 50 200 (js ''- Hej, otw'' @ [0xF3] @ js ''rzmy razem now'' @ [0x105] @ js '' ksi'' @ [0x105, 0x17C] @ js ''k'' @ [0x119] @ js '' pe'' @ [0x142] @ js ''n'' @ [0x105] @ js '' przyg'' @ [0xF3] @ js ''d!''), openaiReply = OpenaiSilent, random = 0\<rparr> Map.empty (js ''Zosia'') (Num 7) =
           ((50, Inr (js ''Hej, otw'' @ [0xF3] @ js ''rzmy razem now'' @ [0x105] @ js '' ksi'' @ [0x105, 0x17C] @ js ''k'' @ [0x119] @ js '' pe'' @ [0x142] @ js ''n'' @ [0x105] @ js '' przyg'' @ [0xF3] @ js ''d!'', source)), [(js ''zosia'', Some (Num 7)) \<mapsto> take 20 [js ''Hej, otw'' @ [0xF3] @ js ''rzmy razem now'' @ [0x105] @ js '' ksi'' @ [0x105, 0x17C] @ js ''k'' @ [0x119] @ js '' pe'' @ [0x142] @ js ''n'' @ [0x105] @ js '' przyg'' @ [0xF3] @ js ''d!'']])"
    using unsanitized_fallback
      [of "\<lparr>GROQ_API_KEY = True, openai = False, DEADLINE_MS = 1200, MOCK_TEXT = False\<rparr>" "\<lparr>groqReply = GroqHttp 50 200 (js ''- Hej, otw'' @ [0xF3] @ js ''rzmy razem now'' @ [0x105] @ js '' ksi'' @ [0x105, 0x17C] @ js ''k'' @ [0x119] @ js '' pe'' @ [0x142] @ js ''n'' @ [0x105] @ js '' przyg'' @ [0xF3] @ js ''d!''), openaiReply = OpenaiSilent, random = 0\<rparr>" 50 "\<lparr>provider = ''groq'', wtext = js ''- Hej, otw'' @ [0xF3] @ js ''rzmy razem now'' @ [0x105] @ js '' ksi'' @ [0x105, 0x17C] @ js ''k'' @ [0x119] @ js '' pe'' @ [0x142] @ js ''n'' @ [0x105] @ js '' przyg'' @ [0xF3] @ js ''d!'', latency_ms = 50\<rparr>" polish
          "js ''Hej, otw'' @ [0xF3] @ js ''rzmy razem now'' @ [0x105] @ js '' ksi'' @ [0x105, 0x17C] @ js ''k'' @ [0x119] @ js '' pe'' @ [0x142] @ js ''n'' @ [0x105] @ js '' przyg'' @ [0xF3] @ js ''d!''" Map.empty "js ''Zosia''" "Num 7"]
      r c k p s h
    by simp
  have src: "snd (projr (snd (fst (generateGreetingV2 polish \<lparr>GROQ_API_KEY = True, openai = False, DEADLINE_MS = 1200, MOCK_TEXT = False\<rparr> \<lparr>groqReply = GroqHttp 50 200 (js ''- Hej, otw'' @ [0xF3] @ js ''rzmy razem now'' @ [0x105] @ js '' ksi'' @ [0x105, 0x17C] @ js ''k'' @ [0x119] @ js '' pe'' @ [0x142] @ js ''n'' @ [0x105] @ js '' przyg'' @ [0xF3] @ js ''d!''), openaiReply = OpenaiSilent, random = 0\<rparr> Map.empty (js ''Zosia'') (Num 7))))) = ''groq''"
    using r c by (simp add: generateGreetingV2_def Let_def)
  show ?thesis using g s st src by auto
qed

section \<open>The sanitizer on the greeting of the specification\<close>

text \<open>
  C4. The sanitizer applied to \<open>Cze\<dots> Zosiu, otw\<dots>rzmy ksi\<dots>k\<dots>!\<close> with the name
  \<open>Zosia\<close> should yield a text without a leading greeting word. It returns the text
  unchanged: the text does begin with the first forbidden word, but the \<open>\b\<close> after it
  does not hold between a c-acute and a space, neither being a word character of a
  regular expression.
\<close>

theorem sanitizeNoName_keeps_leading_greeting:
  "sanitizeNoName polish (js ''Zosia'') (js ''Cze'' @ [0x15B, 0x107] @ js '' Zosiu, otw'' @ [0xF3] @ js ''rzmy ksi'' @ [0x105, 0x17C] @ js ''k'' @ [0x119] @ js ''!'') = js ''Cze'' @ [0x15B, 0x107] @ js '' Zosiu, otw'' @ [0xF3] @ js ''rzmy ksi'' @ [0x105, 0x17C] @ js ''k'' @ [0x119] @ js ''!'' \<and>
   matchesCI polish (hd FORBIDDEN_HELLOS) (decode (js ''Cze'' @ [0x15B, 0x107] @ js '' Zosiu, otw'' @ [0xF3] @ js ''rzmy ksi'' @ [0x105, 0x17C] @ js ''k'' @ [0x119] @ js ''!'')) \<and>
   charAt (decode (js ''Cze'' @ [0x15B, 0x107] @ js '' Zosiu, otw'' @ [0xF3] @ js ''rzmy ksi'' @ [0x105, 0x17C] @ js ''k'' @ [0x119] @ js ''!'')) 4 = Some 0x107 \<and>
   charAt (decode (js ''Cze'' @ [0x15B, 0x107] @ js '' Zosiu, otw'' @ [0xF3] @ js ''rzmy ksi'' @ [0x105, 0x17C] @ js ''k'' @ [0x119] @ js ''!'')) 5 = Some 32 \<and>
   \<not> wordBoundary polish (Some 0x107) (Some 32) \<and>
   \<not> startsWithHello polish (js ''Cze'' @ [0x15B, 0x107] @ js '' Zosiu, otw'' @ [0xF3] @ js ''rzmy ksi'' @ [0x105, 0x17C] @ js ''k'' @ [0x119] @ js ''!'')"
  by code_simp

section \<open>Properties of candidate parsing\<close>


lemma uniq_first_seen: "uniq (xs @ [x]) = (if x \<in> set xs then uniq xs else uniq xs @ [x])"
  by (induction xs rule: uniq.induct) (auto simp: set_uniq)








section \<open>Properties of the accuracy score\<close>










section \<open>Properties of the motivation tightener\<close>






lemma hardLimit_short: "length t \<le> n \<Longrightarrow> hardLimit n t = t"
  by (simp add: hardLimit_def)


















































end
